theory Spec2Isabelle
  imports Complex_Main
begin

section \<open>Python values, external calls and the notebook kernel\<close>

text \<open>
  The repository is two Jupyter notebooks, \<^verbatim>\<open>cuML/linear_regression.ipynb\<close> and
  \<^verbatim>\<open>cuML/classification.ipynb\<close>. Their code cells are straight-line Python: every
  statement is a call into cuML, scikit-learn, cupy, joblib, \<^verbatim>\<open>time\<close> or \<^verbatim>\<open>print\<close>.
  None of these libraries is part of the repository, so they are a parameter of the model:
  an \<open>extern\<close> answers each call from the state of the outside world (device memory, random
  generators, the clock, the file system) and changes that state. A call may return a value
  or raise; a raise ends the cell, as an uncaught Python exception does.

  A Python value is an opaque object of the libraries (an array, a model, a dtype, a
  float they computed), one of the literals the cells write, or a tuple or a list
  of such values. A float literal is given by
  the rational its decimal text denotes. Arithmetic on floats is not modelled: it is handed
  to the \<open>extern\<close> as the method call Python makes (\<^verbatim>\<open>a - b\<close> is \<^verbatim>\<open>a.__sub__(b)\<close>).
\<close>

datatype 'o pyval =
    PyObj 'o
  | PyInt int
  | PyFloat rat
  | PyStr string
  | PyBool bool
  | PyTuple "'o pyval list"
  | PyList "'o pyval list"
  | PyNone

text \<open>
  What a cell asks of the outside: an import statement (module and imported names), a call
  of a function by its qualified name with positional and keyword arguments, a method call
  on an object, or an attribute read. Names stand for what they are bound to where the
  statement runs: \<^verbatim>\<open>train_test_split\<close> is cuML's in the cells that import it from
  \<^verbatim>\<open>cuml.model_selection\<close> and scikit-learn's in those that import it from
  \<^verbatim>\<open>sklearn.model_selection\<close>.
\<close>

datatype 'o call =
    Import string "string list"
  | Call string "'o pyval list" "(string \<times> 'o pyval) list"
  | Method "'o pyval" string "'o pyval list"
  | Attr "'o pyval" string

type_synonym 'o outcome = "string + 'o pyval"

type_synonym ('o, 'w) extern = "'o call \<Rightarrow> 'w \<Rightarrow> 'o outcome \<times> 'w"

text \<open>The kernel: the outside world and the trace of the calls made so far, with their outcomes.\<close>

record ('o, 'w) kernel =
  world :: 'w
  trace :: "('o call \<times> 'o outcome) list"

type_synonym ('o, 'w, 'r) py = "('o, 'w) kernel \<Rightarrow> (string + 'r) \<times> ('o, 'w) kernel"

definition py_return :: "'r \<Rightarrow> ('o, 'w, 'r) py" where
  "py_return x s = (Inr x, s)"

definition py_raise :: "string \<Rightarrow> ('o, 'w, 'r) py" where
  "py_raise e s = (Inl e, s)"

definition py_bind :: "('o, 'w, 'a) py \<Rightarrow> ('a \<Rightarrow> ('o, 'w, 'b) py) \<Rightarrow> ('o, 'w, 'b) py" where
  "py_bind m f s = (case m s of (Inl e, s') \<Rightarrow> (Inl e, s') | (Inr x, s') \<Rightarrow> f x s')"

definition perform :: "('o, 'w) extern \<Rightarrow> 'o call \<Rightarrow> ('o, 'w, 'o pyval) py" where
  "perform ext c s =
     (case ext c (world s) of
        (r, w') \<Rightarrow> (r, s\<lparr>world := w', trace := trace s @ [(c, r)]\<rparr>))"

subsection \<open>Unpacking\<close>

text \<open>
  \<^verbatim>\<open>a, b = v\<close> unpacks any iterable. A tuple or a list gives its items and a string its
  characters. Any other object is iterated through the built-ins: \<^verbatim>\<open>iter(v)\<close>, then
  \<^verbatim>\<open>next\<close> once for each target and once more, which has to raise StopIteration. Too few or
  too many items raise ValueError; a value that cannot be iterated raises TypeError (for an
  object, \<^verbatim>\<open>iter\<close> raises it).
\<close>

fun items_of :: "'o pyval \<Rightarrow> 'o pyval list option" where
  "items_of (PyTuple vs) = Some vs"
| "items_of (PyList vs) = Some vs"
| "items_of (PyStr t) = Some (map (\<lambda>c. PyStr [c]) t)"
| "items_of _ = None"

definition next_item :: "('o, 'w) extern \<Rightarrow> 'o pyval \<Rightarrow> ('o, 'w, 'o pyval option) py" where
  "next_item ext it s =
     (case perform ext (Call ''next'' [it] []) s of
        (Inl e, s') \<Rightarrow> if e = ''StopIteration'' then (Inr None, s') else (Inl e, s')
      | (Inr v, s') \<Rightarrow> (Inr (Some v), s'))"

fun take_items :: "('o, 'w) extern \<Rightarrow> 'o pyval \<Rightarrow> nat \<Rightarrow> ('o, 'w, 'o pyval list) py" where
  "take_items ext it 0 = py_return []"
| "take_items ext it (Suc n) =
     py_bind (next_item ext it) (\<lambda>r.
       case r of
         None \<Rightarrow> py_raise ''ValueError''
       | Some v \<Rightarrow> py_bind (take_items ext it n) (\<lambda>vs. py_return (v # vs)))"

definition unpack :: "('o, 'w) extern \<Rightarrow> nat \<Rightarrow> 'o pyval \<Rightarrow> ('o, 'w, 'o pyval list) py" where
  "unpack ext n v =
     (case items_of v of
        Some vs \<Rightarrow> if length vs = n then py_return vs else py_raise ''ValueError''
      | None \<Rightarrow>
          (case v of
             PyObj x \<Rightarrow>
               py_bind (perform ext (Call ''iter'' [v] [])) (\<lambda>it.
               py_bind (take_items ext it n) (\<lambda>vs.
               py_bind (next_item ext it) (\<lambda>r.
                 case r of None \<Rightarrow> py_return vs | Some _ \<Rightarrow> py_raise ''ValueError'')))
           | _ \<Rightarrow> py_raise ''TypeError''))"

definition unpack2 :: "('o, 'w) extern \<Rightarrow> 'o pyval \<Rightarrow> ('o, 'w, 'o pyval \<times> 'o pyval) py" where
  "unpack2 ext v =
     py_bind (unpack ext 2 v) (\<lambda>vs.
       case vs of [a, b] \<Rightarrow> py_return (a, b) | _ \<Rightarrow> py_raise ''ValueError'')"

definition unpack4 ::
  "('o, 'w) extern \<Rightarrow> 'o pyval \<Rightarrow> ('o, 'w, 'o pyval \<times> 'o pyval \<times> 'o pyval \<times> 'o pyval) py" where
  "unpack4 ext v =
     py_bind (unpack ext 4 v) (\<lambda>vs.
       case vs of [a, b, c, d] \<Rightarrow> py_return (a, b, c, d) | _ \<Rightarrow> py_raise ''ValueError'')"

subsection \<open>Text of values, as an f-string renders them\<close>

text \<open>
  \<^verbatim>\<open>str\<close> of an int is its decimal text, of a tuple the \<^verbatim>\<open>repr\<close> of its items between
  parentheses, separated by a comma and a space, with a trailing comma when there is one
  item, of a list the same between brackets. The \<^verbatim>\<open>repr\<close> of an object, a float or a
  string is asked of the \<open>extern\<close>.
\<close>

definition digit_char :: "nat \<Rightarrow> char" where
  "digit_char d = ''0123456789'' ! d"

fun dec_nat :: "nat \<Rightarrow> string" where
  "dec_nat n = (if n < 10 then [digit_char n] else dec_nat (n div 10) @ [digit_char (n mod 10)])"

declare dec_nat.simps [simp del]

definition dec_int :: "int \<Rightarrow> string" where
  "dec_int i = (if i < 0 then CHR ''-'' # dec_nat (nat (- i)) else dec_nat (nat i))"

fun join_comma :: "string list \<Rightarrow> string" where
  "join_comma [] = []"
| "join_comma [x] = x"
| "join_comma (x # y # ys) = x @ '', '' @ join_comma (y # ys)"

definition tuple_text :: "string list \<Rightarrow> string" where
  "tuple_text rs = (if length rs = 1 then ''('' @ hd rs @ '',)'' else ''('' @ join_comma rs @ '')'')"

fun expect_str :: "'o pyval \<Rightarrow> ('o, 'w, string) py" where
  "expect_str (PyStr t) = py_return t"
| "expect_str _ = py_raise ''TypeError''"

fun py_repr :: "('o, 'w) extern \<Rightarrow> 'o pyval \<Rightarrow> ('o, 'w, string) py"
  and py_reprs :: "('o, 'w) extern \<Rightarrow> 'o pyval list \<Rightarrow> ('o, 'w, string list) py" where
  "py_repr ext (PyInt i) = py_return (dec_int i)"
| "py_repr ext (PyBool b) = py_return (if b then ''True'' else ''False'')"
| "py_repr ext PyNone = py_return ''None''"
| "py_repr ext (PyTuple vs) = py_bind (py_reprs ext vs) (\<lambda>rs. py_return (tuple_text rs))"
| "py_repr ext (PyList vs) =
     py_bind (py_reprs ext vs) (\<lambda>rs. py_return (''['' @ join_comma rs @ '']''))"
| "py_repr ext (PyObj x) = py_bind (perform ext (Call ''repr'' [PyObj x] [])) expect_str"
| "py_repr ext (PyFloat q) = py_bind (perform ext (Call ''repr'' [PyFloat q] [])) expect_str"
| "py_repr ext (PyStr t) = py_bind (perform ext (Call ''repr'' [PyStr t] [])) expect_str"
| "py_reprs ext [] = py_return []"
| "py_reprs ext (v # vs) =
     py_bind (py_repr ext v) (\<lambda>r. py_bind (py_reprs ext vs) (\<lambda>rs. py_return (r # rs)))"

definition py_str :: "('o, 'w) extern \<Rightarrow> 'o pyval \<Rightarrow> ('o, 'w, string) py" where
  "py_str ext v = (case v of PyStr t \<Rightarrow> py_return t | _ \<Rightarrow> py_repr ext v)"

section \<open>The regression notebook, \<^verbatim>\<open>cuML/linear_regression.ipynb\<close>\<close>

text \<open>
  Each code cell is a function of the \<open>extern\<close>. The first cell imports \<^verbatim>\<open>cuml\<close>,
  \<^verbatim>\<open>asnumpy\<close>, \<^verbatim>\<open>dump\<close> and \<^verbatim>\<open>load\<close>; the second imports the cuML generator, splitter
  and estimator and scikit-learn's \<^verbatim>\<open>r2_score\<close>.
\<close>

definition reg_cell1 :: "('o, 'w) extern \<Rightarrow> ('o, 'w, unit) py" where
  "reg_cell1 ext =
     py_bind (perform ext (Import ''cuml'' [])) (\<lambda>_.
     py_bind (perform ext (Import ''cupy'' [''asnumpy''])) (\<lambda>_.
     py_bind (perform ext (Import ''joblib'' [''dump'', ''load''])) (\<lambda>_.
     py_return ())))"

definition reg_cell2 :: "('o, 'w) extern \<Rightarrow> ('o, 'w, unit) py" where
  "reg_cell2 ext =
     py_bind (perform ext (Import ''cuml.datasets'' [''make_regression''])) (\<lambda>_.
     py_bind (perform ext (Import ''cuml.model_selection'' [''train_test_split''])) (\<lambda>_.
     py_bind (perform ext (Import ''cuml.linear_model'' [''LinearRegression''])) (\<lambda>_.
     py_bind (perform ext (Import ''sklearn.metrics'' [''r2_score''])) (\<lambda>_.
     py_return ()))))"

text \<open>The dataset dimensions, assigned at the top of the accelerated cell and again, with
  the same names, at the top of the reference cell.\<close>

record reg_params =
  n_samples :: int
  n_features :: int
  n_info :: int

definition reg_gpu_params :: reg_params where
  "reg_gpu_params = \<lparr>n_samples = 100000, n_features = 256, n_info = 70\<rparr>"

definition reg_cpu_params :: reg_params where
  "reg_cpu_params = \<lparr>n_samples = 100000, n_features = 256, n_info = 70\<rparr>"

text \<open>\<^verbatim>\<open>make_regression(n_samples=.., n_features=.., n_informative=.., random_state=123)\<close>;
  in both cells the name is the one the second cell imported from \<^verbatim>\<open>cuml.datasets\<close>.\<close>

definition reg_generate :: "reg_params \<Rightarrow> 'o call" where
  "reg_generate p =
     Call ''cuml.datasets.make_regression'' []
       [(''n_samples'', PyInt (n_samples p)),
        (''n_features'', PyInt (n_features p)),
        (''n_informative'', PyInt (n_info p)),
        (''random_state'', PyInt 123)]"

text \<open>The f-string of the accelerated cell's first print:
  \<^verbatim>\<open>f'Shape of X_reg {X_reg.shape} and y_reg {y_reg.shape} and Type {X_reg.dtype, y_reg.dtype} \n'\<close>.\<close>

definition shape_line :: "('o, 'w) extern \<Rightarrow> 'o pyval \<Rightarrow> 'o pyval \<Rightarrow> ('o, 'w, string) py" where
  "shape_line ext X_reg y_reg =
     py_bind (perform ext (Attr X_reg ''shape'')) (\<lambda>x_shape.
     py_bind (py_str ext x_shape) (\<lambda>t1.
     py_bind (perform ext (Attr y_reg ''shape'')) (\<lambda>y_shape.
     py_bind (py_str ext y_shape) (\<lambda>t2.
     py_bind (perform ext (Attr X_reg ''dtype'')) (\<lambda>x_dtype.
     py_bind (perform ext (Attr y_reg ''dtype'')) (\<lambda>y_dtype.
     py_bind (py_str ext (PyTuple [x_dtype, y_dtype])) (\<lambda>t3.
     py_return (''Shape of X_reg '' @ t1 @ '' and y_reg '' @ t2 @ '' and Type '' @ t3
                @ '' \<newline>''))))))))"

text \<open>The accelerated cell (execution count 3). Its value is what \<^verbatim>\<open>dump\<close> returns, the
  cell's last expression.\<close>

definition reg_gpu_cell :: "('o, 'w) extern \<Rightarrow> ('o, 'w, 'o pyval) py" where
  "reg_gpu_cell ext =
     py_bind (perform ext (Import ''time'' [])) (\<lambda>_.
     py_bind (perform ext (reg_generate reg_gpu_params)) (\<lambda>generated.
     py_bind (unpack2 ext generated) (\<lambda>(X_reg, y_reg).
     py_bind (shape_line ext X_reg y_reg) (\<lambda>line.
     py_bind (perform ext (Call ''print'' [PyStr line] [])) (\<lambda>_.
     py_bind (perform ext (Call ''cuml.model_selection.train_test_split'' [X_reg, y_reg]
                [(''train_size'', PyFloat (8 / 10)), (''random_state'', PyInt 10)])) (\<lambda>parts.
     py_bind (unpack4 ext parts) (\<lambda>(X_reg_train, X_reg_test, y_reg_train, y_reg_test).
     py_bind (perform ext (Call ''cuml.linear_model.LinearRegression'' []
                [(''fit_intercept'', PyBool True), (''normalize'', PyBool True),
                 (''algorithm'', PyStr ''eig'')])) (\<lambda>cuml_reg_model.
     py_bind (perform ext (Call ''time.time'' [] [])) (\<lambda>start_time.
     py_bind (perform ext (Method cuml_reg_model ''fit'' [X_reg_train, y_reg_train])) (\<lambda>trained_LR.
     py_bind (perform ext (Call ''time.time'' [] [])) (\<lambda>end_time.
     py_bind (perform ext (Method end_time ''__sub__'' [start_time])) (\<lambda>cuml_training_time.
     py_bind (perform ext (Method trained_LR ''predict'' [X_reg_test])) (\<lambda>cu_preds.
     py_bind (perform ext (Call ''cuml.metrics.r2_score'' [y_reg_test, cu_preds] [])) (\<lambda>cu_r2.
     py_bind (perform ext (Call ''cupy.asnumpy'' [y_reg_test] [])) (\<lambda>y_np.
     py_bind (perform ext (Call ''cupy.asnumpy'' [cu_preds] [])) (\<lambda>preds_np.
     py_bind (perform ext (Call ''sklearn.metrics.r2_score'' [y_np, preds_np] [])) (\<lambda>sk_r2.
     py_bind (perform ext (Call ''print'' [PyStr ''cuml's r2 score : '', cu_r2] [])) (\<lambda>_.
     py_bind (perform ext (Call ''print'' [PyStr ''sklearn's r2 score : '', sk_r2] [])) (\<lambda>_.
     py_bind (perform ext (Call ''print''
                [PyStr ''cuML's training time:'', cuml_training_time, PyStr ''seconds''] [])) (\<lambda>_.
     perform ext (Call ''joblib.dump'' [trained_LR, PyStr ''LR.model''] [])))))))))))))))))))))"

text \<open>The reference cell (execution count 4). It rebinds \<^verbatim>\<open>train_test_split\<close> and imports
  scikit-learn's \<^verbatim>\<open>LinearRegression\<close>; \<^verbatim>\<open>make_regression\<close> and \<^verbatim>\<open>asnumpy\<close> are still
  the names of the earlier cells.\<close>

definition reg_cpu_cell :: "('o, 'w) extern \<Rightarrow> ('o, 'w, unit) py" where
  "reg_cpu_cell ext =
     py_bind (perform ext (Import ''sklearn.model_selection'' [''train_test_split''])) (\<lambda>_.
     py_bind (perform ext (Import ''sklearn.linear_model'' [''LinearRegression''])) (\<lambda>_.
     py_bind (perform ext (Import ''sklearn.metrics'' [''r2_score''])) (\<lambda>_.
     py_bind (perform ext (Import ''numpy'' [])) (\<lambda>_.
     py_bind (perform ext (Import ''time'' [])) (\<lambda>_.
     py_bind (perform ext (reg_generate reg_cpu_params)) (\<lambda>generated.
     py_bind (unpack2 ext generated) (\<lambda>(X_reg, y_reg).
     py_bind (perform ext (Call ''cupy.asnumpy'' [X_reg] [])) (\<lambda>X_np.
     py_bind (perform ext (Call ''cupy.asnumpy'' [y_reg] [])) (\<lambda>y_np.
     py_bind (perform ext (Call ''sklearn.model_selection.train_test_split'' [X_np, y_np]
                [(''train_size'', PyFloat (8 / 10)), (''random_state'', PyInt 10)])) (\<lambda>parts.
     py_bind (unpack4 ext parts) (\<lambda>(X_reg_train, X_reg_test, y_reg_train, y_reg_test).
     py_bind (perform ext (Call ''time.time'' [] [])) (\<lambda>start_time.
     py_bind (perform ext (Call ''sklearn.linear_model.LinearRegression'' [] [])) (\<lambda>sk_reg_model.
     py_bind (perform ext (Method sk_reg_model ''fit'' [X_reg_train, y_reg_train])) (\<lambda>_.
     py_bind (perform ext (Call ''time.time'' [] [])) (\<lambda>end_time.
     py_bind (perform ext (Method end_time ''__sub__'' [start_time])) (\<lambda>sk_learning_time.
     py_bind (perform ext (Method sk_reg_model ''predict'' [X_reg_test])) (\<lambda>sk_preds.
     py_bind (perform ext (Call ''sklearn.metrics.r2_score'' [y_reg_test, sk_preds] [])) (\<lambda>sk_r2.
     py_bind (perform ext (Call ''print'' [PyStr ''scikit-learn's r2 score:'', sk_r2] [])) (\<lambda>_.
     py_bind (perform ext (Call ''print''
                [PyStr ''scikit-learn's training time:'', sk_learning_time, PyStr ''seconds''] [])) (\<lambda>_.
     py_return ()))))))))))))))))))))"

text \<open>The cells in the order the notebook records their execution.\<close>

definition regression_notebook :: "('o, 'w) extern \<Rightarrow> ('o, 'w, unit) py" where
  "regression_notebook ext =
     py_bind (reg_cell1 ext) (\<lambda>_.
     py_bind (reg_cell2 ext) (\<lambda>_.
     py_bind (reg_gpu_cell ext) (\<lambda>_.
     reg_cpu_cell ext)))"

section \<open>The classification notebook, \<^verbatim>\<open>cuML/classification.ipynb\<close>\<close>

definition clf_cell1 :: "('o, 'w) extern \<Rightarrow> ('o, 'w, unit) py" where
  "clf_cell1 ext =
     py_bind (perform ext (Import ''cuml'' [])) (\<lambda>_.
     py_bind (perform ext (Import ''cupy'' [''asnumpy''])) (\<lambda>_.
     py_bind (perform ext (Import ''joblib'' [''dump'', ''load''])) (\<lambda>_.
     py_return ())))"

text \<open>The dataset dimensions and the forest's depth and size, assigned in the accelerated
  cell and again in the reference cell.\<close>

record clf_params =
  n_samples :: int
  n_features :: int
  n_classes :: int
  n_estimators :: int
  max_depth :: int

definition clf_gpu_params :: clf_params where
  "clf_gpu_params =
     \<lparr>n_samples = 100000, n_features = 10, n_classes = 2, n_estimators = 25, max_depth = 10\<rparr>"

definition clf_cpu_params :: clf_params where
  "clf_cpu_params =
     \<lparr>n_samples = 100000, n_features = 10, n_classes = 2, n_estimators = 25, max_depth = 10\<rparr>"

text \<open>\<^verbatim>\<open>make_classification(n_classes=.., n_features=.., n_samples=.., random_state=0)\<close>.\<close>

definition clf_generate :: "clf_params \<Rightarrow> 'o call" where
  "clf_generate p =
     Call ''cuml.datasets.classification.make_classification'' []
       [(''n_classes'', PyInt (n_classes p)),
        (''n_features'', PyInt (n_features p)),
        (''n_samples'', PyInt (n_samples p)),
        (''random_state'', PyInt 0)]"

text \<open>The accelerated cell (execution count 2). It ends in an assignment, so it shows no
  value; it leaves \<^verbatim>\<open>X\<close> and \<^verbatim>\<open>y\<close> in the kernel for the next cell, which reads them.\<close>

definition clf_gpu_cell :: "('o, 'w) extern \<Rightarrow> ('o, 'w, 'o pyval \<times> 'o pyval) py" where
  "clf_gpu_cell ext =
     py_bind (perform ext (Import ''cuml.datasets.classification'' [''make_classification''])) (\<lambda>_.
     py_bind (perform ext (Import ''cuml.model_selection'' [''train_test_split''])) (\<lambda>_.
     py_bind (perform ext (Import ''cuml.ensemble'' [''RandomForestClassifier''])) (\<lambda>_.
     py_bind (perform ext (Import ''sklearn.metrics'' [''accuracy_score''])) (\<lambda>_.
     py_bind (perform ext (Import ''time'' [])) (\<lambda>_.
     py_bind (perform ext (clf_generate clf_gpu_params)) (\<lambda>generated.
     py_bind (unpack2 ext generated) (\<lambda>(X, y).
     py_bind (perform ext (Call ''cuml.model_selection.train_test_split'' [X, y]
                [(''random_state'', PyInt 0)])) (\<lambda>parts.
     py_bind (unpack4 ext parts) (\<lambda>(X_train, X_test, y_train, y_test).
     py_bind (perform ext (Call ''cuml.ensemble.RandomForestClassifier'' []
                [(''max_depth'', PyInt (max_depth clf_gpu_params)),
                 (''n_estimators'', PyInt (n_estimators clf_gpu_params)),
                 (''random_state'', PyInt 0)])) (\<lambda>model.
     py_bind (perform ext (Call ''time.time'' [] [])) (\<lambda>start_time.
     py_bind (perform ext (Method model ''fit'' [X_train, y_train])) (\<lambda>trained_RF.
     py_bind (perform ext (Call ''time.time'' [] [])) (\<lambda>end_time.
     py_bind (perform ext (Method end_time ''__sub__'' [start_time])) (\<lambda>cuml_training_time.
     py_bind (perform ext (Method model ''predict'' [X_test])) (\<lambda>predictions.
     py_bind (perform ext (Call ''cuml.metrics.accuracy_score'' [y_test, predictions] [])) (\<lambda>cu_score.
     py_bind (perform ext (Call ''cupy.asnumpy'' [y_test] [])) (\<lambda>y_np.
     py_bind (perform ext (Call ''cupy.asnumpy'' [predictions] [])) (\<lambda>preds_np.
     py_bind (perform ext (Call ''sklearn.metrics.accuracy_score'' [y_np, preds_np] [])) (\<lambda>sk_score.
     py_bind (perform ext (Call ''print'' [PyStr '' cuml accuracy: '', cu_score] [])) (\<lambda>_.
     py_bind (perform ext (Call ''print'' [PyStr '' sklearn accuracy : '', sk_score] [])) (\<lambda>_.
     py_bind (perform ext (Call ''print''
                [PyStr ''cuML Random Forest classification training time'', cuml_training_time,
                 PyStr ''seconds''] [])) (\<lambda>_.
     py_bind (perform ext (Call ''joblib.dump'' [trained_RF, PyStr ''RF.model''] [])) (\<lambda>_.
     py_bind (perform ext (Call ''joblib.load'' [PyStr ''RF.model''] [])) (\<lambda>loaded_model.
     py_return (X, y)))))))))))))))))))))))))"

text \<open>The reference cell (execution count 3). Its own call of the generator is commented
  out: \<^verbatim>\<open>X\<close> and \<^verbatim>\<open>y\<close> are the kernel's, bound by the accelerated cell.\<close>

definition clf_cpu_cell ::
  "('o, 'w) extern \<Rightarrow> 'o pyval \<Rightarrow> 'o pyval \<Rightarrow> ('o, 'w, unit) py" where
  "clf_cpu_cell ext X y =
     py_bind (perform ext (Import ''cuml.datasets.classification'' [''make_classification''])) (\<lambda>_.
     py_bind (perform ext (Import ''sklearn.model_selection'' [''train_test_split''])) (\<lambda>_.
     py_bind (perform ext (Import ''sklearn.ensemble'' [''RandomForestClassifier''])) (\<lambda>_.
     py_bind (perform ext (Import ''sklearn.metrics'' [''accuracy_score''])) (\<lambda>_.
     py_bind (perform ext (Import ''time'' [])) (\<lambda>_.
     py_bind (perform ext (Call ''cupy.asnumpy'' [X] [])) (\<lambda>X_np.
     py_bind (perform ext (Call ''cupy.asnumpy'' [y] [])) (\<lambda>y_np.
     py_bind (perform ext (Call ''sklearn.model_selection.train_test_split'' [X_np, y_np]
                [(''random_state'', PyInt 0)])) (\<lambda>parts.
     py_bind (unpack4 ext parts) (\<lambda>(X_train, X_test, y_train, y_test).
     py_bind (perform ext (Call ''sklearn.ensemble.RandomForestClassifier'' []
                [(''n_estimators'', PyInt (n_estimators clf_cpu_params)),
                 (''max_depth'', PyInt (max_depth clf_cpu_params)),
                 (''random_state'', PyInt 0)])) (\<lambda>sk_model.
     py_bind (perform ext (Call ''time.time'' [] [])) (\<lambda>start_time.
     py_bind (perform ext (Method sk_model ''fit'' [X_train, y_train])) (\<lambda>_.
     py_bind (perform ext (Call ''time.time'' [] [])) (\<lambda>end_time.
     py_bind (perform ext (Method end_time ''__sub__'' [start_time])) (\<lambda>sk_learning_time.
     py_bind (perform ext (Method sk_model ''predict'' [X_test])) (\<lambda>predictions.
     py_bind (perform ext (Call ''sklearn.metrics.accuracy_score'' [y_test, predictions] [])) (\<lambda>sk_score.
     py_bind (perform ext (Call ''print'' [PyStr ''scikit-learn's accuracy:'', sk_score] [])) (\<lambda>_.
     py_bind (perform ext (Call ''print''
                [PyStr ''scikit-learn's training time:'', sk_learning_time, PyStr ''seconds''] [])) (\<lambda>_.
     py_return ()))))))))))))))))))"

definition classification_notebook :: "('o, 'w) extern \<Rightarrow> ('o, 'w, unit) py" where
  "classification_notebook ext =
     py_bind (clf_cell1 ext) (\<lambda>_.
     py_bind (clf_gpu_cell ext) (\<lambda>(X, y).
     clf_cpu_cell ext X y))"

section \<open>Timing brackets\<close>

text \<open>
  An elapsed time is the difference of two successive readings of \<^verbatim>\<open>time.time()\<close>.
  \<open>brackets\<close> pairs the readings of a trace in order, first with second, third with fourth,
  and gives for each pair the calls made between the two readings.
\<close>

definition is_clock :: "'o call \<Rightarrow> bool" where
  "is_clock c = (c = Call ''time.time'' [] [])"

fun is_fit :: "'o call \<Rightarrow> bool" where
  "is_fit (Method _ name _) = (name = ''fit'')"
| "is_fit _ = False"

fun brackets_from :: "'o call list option \<Rightarrow> 'o call list \<Rightarrow> 'o call list list" where
  "brackets_from _ [] = []"
| "brackets_from None (c # cs) =
     (if is_clock c then brackets_from (Some []) cs else brackets_from None cs)"
| "brackets_from (Some inside) (c # cs) =
     (if is_clock c then inside # brackets_from None cs
      else brackets_from (Some (inside @ [c])) cs)"

definition brackets :: "('o call \<times> 'o outcome) list \<Rightarrow> 'o call list list" where
  "brackets tr = brackets_from None (map fst tr)"

section \<open>Runs and what they called\<close>

text \<open>A run completes when no call raised. \<open>calls_of\<close> is the calls a run made, in order,
  with their outcomes: what it appended to the kernel's trace.\<close>

definition completes :: "(string + 'r) \<times> ('o, 'w) kernel \<Rightarrow> bool" where
  "completes r = (case fst r of Inl _ \<Rightarrow> False | Inr _ \<Rightarrow> True)"

definition calls_of :: "('o, 'w, 'r) py \<Rightarrow> ('o, 'w) kernel \<Rightarrow> ('o call \<times> 'o outcome) list" where
  "calls_of m s = drop (length (trace s)) (trace (snd (m s)))"

text \<open>The calls of the functions with one of the given qualified names, and the calls of a
  method.\<close>

fun named :: "string list \<Rightarrow> 'o call \<Rightarrow> bool" where
  "named ns (Call n _ _) = (n \<in> set ns)"
| "named ns _ = False"

definition calls_to :: "string list \<Rightarrow> ('o call \<times> 'o outcome) list \<Rightarrow> 'o call list" where
  "calls_to ns tr = filter (named ns) (map fst tr)"

fun is_method :: "string \<Rightarrow> 'o call \<Rightarrow> bool" where
  "is_method m (Method _ n _) = (n = m)"
| "is_method m _ = False"

definition generators :: "string list" where
  "generators =
     [''cuml.datasets.make_regression'', ''cuml.datasets.classification.make_classification'']"

definition splitters :: "string list" where
  "splitters =
     [''cuml.model_selection.train_test_split'', ''sklearn.model_selection.train_test_split'']"

definition estimators :: "string list" where
  "estimators =
     [''cuml.linear_model.LinearRegression'', ''sklearn.linear_model.LinearRegression'',
      ''cuml.ensemble.RandomForestClassifier'', ''sklearn.ensemble.RandomForestClassifier'']"

definition scorers :: "string list" where
  "scorers =
     [''cuml.metrics.r2_score'', ''sklearn.metrics.r2_score'',
      ''cuml.metrics.accuracy_score'', ''sklearn.metrics.accuracy_score'']"

text \<open>The calls an f-string makes to render its fields: attribute reads and \<^verbatim>\<open>repr\<close>.\<close>

fun is_fmt :: "'o call \<Rightarrow> bool" where
  "is_fmt (Attr _ _) = True"
| "is_fmt (Call n _ _) = (n = ''repr'')"
| "is_fmt _ = False"

definition fmt_only :: "('o call \<times> 'o outcome) list \<Rightarrow> bool" where
  "fmt_only tr = list_all (\<lambda>e. is_fmt (fst e)) tr"

text \<open>A timing bracket that holds one call of \<^verbatim>\<open>fit\<close> and nothing else.\<close>

definition one_fit_only :: "'o call list \<Rightarrow> bool" where
  "one_fit_only seg = (case seg of [c] \<Rightarrow> is_fit c | _ \<Rightarrow> False)"

text \<open>The calls that unpacking an object makes, and what it means for a stretch of a trace
  to be the unpacking of a value into given items: no call at all when the value is a
  tuple, a list or a string, and otherwise \<^verbatim>\<open>iter\<close>, one \<^verbatim>\<open>next\<close> for each item and a last
  \<^verbatim>\<open>next\<close> that raises StopIteration.\<close>

fun is_iter :: "'o call \<Rightarrow> bool" where
  "is_iter (Call n _ _) = (n = ''iter'' \<or> n = ''next'')"
| "is_iter _ = False"

definition iter_only :: "('o call \<times> 'o outcome) list \<Rightarrow> bool" where
  "iter_only tr = list_all (\<lambda>e. is_iter (fst e)) tr"

definition unpacks :: "'o pyval \<Rightarrow> ('o call \<times> 'o outcome) list \<Rightarrow> 'o pyval list \<Rightarrow> bool" where
  "unpacks v seg vs =
     (case items_of v of
        Some ws \<Rightarrow> seg = [] \<and> ws = vs
      | None \<Rightarrow>
          (case seg of
             (c, Inr it) # rest \<Rightarrow>
               c = Call ''iter'' [v] [] \<and>
               rest = map (\<lambda>u. (Call ''next'' [it] [], Inr u)) vs
                      @ [(Call ''next'' [it] [], Inl ''StopIteration'')]
           | _ \<Rightarrow> False))"

text \<open>What the calls of the given functions answered, and the values a trace prints with a
  label: the second argument of each \<^verbatim>\<open>print(label, value)\<close>. A value is at least a bound
  when it is a number that is.\<close>

definition answers_to :: "string list \<Rightarrow> ('o call \<times> 'o outcome) list \<Rightarrow> 'o outcome list" where
  "answers_to ns tr = map snd (filter (\<lambda>e. named ns (fst e)) tr)"

fun labelled_print :: "'o call \<Rightarrow> 'o pyval option" where
  "labelled_print (Call n args kw) =
     (if n = ''print'' \<and> kw = []
      then (case args of [PyStr label, v] \<Rightarrow> Some v | _ \<Rightarrow> None)
      else None)"
| "labelled_print _ = None"

definition printed_scores :: "('o call \<times> 'o outcome) list \<Rightarrow> 'o pyval list" where
  "printed_scores tr = List.map_filter (\<lambda>e. labelled_print (fst e)) tr"


section \<open>Stand-ins for the libraries\<close>

text \<open>
  Concrete \<open>extern\<close>s on which the cells can be run. An object is a label with the time of
  the call that made it; the world is a counter that doubles as the clock. Generators
  return a tuple of two arrays, cuML's splitter a tuple and scikit-learn's a list of four,
  \<^verbatim>\<open>fit\<close> returns its receiver, and every scorer answers the same number: 1 for \<open>stub_ext\<close>,
  0 for \<open>low_ext\<close>.
\<close>

fun stub_answer :: "rat \<Rightarrow> (string \<times> nat) call \<Rightarrow> nat \<Rightarrow> (string \<times> nat) pyval" where
  "stub_answer q (Import m ns) w = PyNone"
| "stub_answer q (Call n args kw) w =
     (if n \<in> set generators then PyTuple [PyObj (''X'', w), PyObj (''y'', w)]
      else if n = ''cuml.model_selection.train_test_split''
        then PyTuple [PyObj (''X_train'', w), PyObj (''X_test'', w),
                      PyObj (''y_train'', w), PyObj (''y_test'', w)]
      else if n = ''sklearn.model_selection.train_test_split''
        then PyList [PyObj (''X_train'', w), PyObj (''X_test'', w),
                     PyObj (''y_train'', w), PyObj (''y_test'', w)]
      else if n \<in> set scorers then PyFloat q
      else if n = ''time.time'' then PyFloat (of_nat w)
      else if n = ''repr'' then PyStr ''dtype''
      else if n = ''print'' then PyNone
      else PyObj (n, w))"
| "stub_answer q (Method recv n args) w = (if n = ''fit'' then recv else PyObj (n, w))"
| "stub_answer q (Attr v n) w =
     (if n = ''shape'' then PyTuple [PyInt 3, PyInt 2] else PyObj (n, w))"

definition scoring_ext :: "rat \<Rightarrow> (string \<times> nat, nat) extern" where
  "scoring_ext q c w = (Inr (stub_answer q c w), Suc w)"

definition stub_ext :: "(string \<times> nat, nat) extern" where
  "stub_ext = scoring_ext 1"


definition fresh_kernel :: "(string \<times> nat, nat) kernel" where
  "fresh_kernel = \<lparr>world = 0, trace = []\<rparr>"

text \<open>A stand-in for an object that is unpacked by iteration: \<^verbatim>\<open>iter\<close> answers an
  iterator, \<^verbatim>\<open>next\<close> answers 0, then 1, and then raises StopIteration. The world is the
  number of items handed out.\<close>

definition pair_ext :: "(string, nat) extern" where
  "pair_ext c w =
     (case c of
        Call n args kw \<Rightarrow>
          if n = ''iter'' then (Inr (PyObj ''iterator''), 0)
          else if n = ''next''
            then (if w < 2 then (Inr (PyInt (int w)), Suc w) else (Inl ''StopIteration'', w))
          else (Inr PyNone, w)
      | _ \<Rightarrow> (Inr PyNone, w))"

section \<open>The pipeline of a run\<close>

text \<open>
  \<open>data_flow\<close> keeps the calls that make and move the data: generators, unpacking,
  conversions to numpy, splitters. \<open>pipeline\<close> keeps the whole benchmark: these, the
  construction of the estimators, \<^verbatim>\<open>fit\<close>, \<^verbatim>\<open>predict\<close>, the scorers and the prints.
  \<open>kwargs\<close> is the keyword arguments of a call.
\<close>

definition data_flow :: "('o call \<times> 'o outcome) list \<Rightarrow> ('o call \<times> 'o outcome) list" where
  "data_flow tr =
     filter (\<lambda>e. named (generators @ splitters @ [''cupy.asnumpy'', ''iter'', ''next''])
                    (fst e)) tr"

definition pipeline :: "('o call \<times> 'o outcome) list \<Rightarrow> ('o call \<times> 'o outcome) list" where
  "pipeline tr =
     filter (\<lambda>e. named (generators @ splitters @ estimators @ scorers
                           @ [''cupy.asnumpy'', ''print'', ''iter'', ''next'']) (fst e)
                \<or> is_method ''fit'' (fst e) \<or> is_method ''predict'' (fst e)) tr"

fun kwargs :: "'o call \<Rightarrow> (string \<times> 'o pyval) list" where
  "kwargs (Call _ _ kw) = kw"
| "kwargs _ = []"

section \<open>Reasoning about runs\<close>

text \<open>A run that returned made each of its calls in turn, and each call returned.\<close>

lemma py_bindE:
  assumes "py_bind m f s = (Inr r, s')"
  obtains x s1 where "m s = (Inr x, s1)" and "f x s1 = (Inr r, s')"
  using assms by (auto simp: py_bind_def split: prod.splits sum.splits)

lemma performE:
  assumes "perform ext c s = (Inr v, s1)"
  obtains "trace s1 = trace s @ [(c, Inr v)]"
  using assms by (auto simp: perform_def split: prod.splits)

lemma py_returnE:
  assumes "py_return x s = (Inr r, s1)"
  obtains "r = x" and "s1 = s"
  using assms by (auto simp: py_return_def)

lemma expect_strE:
  assumes "expect_str v s = (Inr t, s1)"
  obtains "v = PyStr t" and "s1 = s"
  using assms by (cases v) (auto simp: py_return_def py_raise_def)

lemma completesE:
  assumes "completes (m s)"
  obtains x s' where "m s = (Inr x, s')"
  using assms by (cases "m s") (auto simp: completes_def split: sum.splits)

lemma calls_of_run:
  assumes "m s = (r, s')"
  shows "calls_of m s = drop (length (trace s)) (trace s')"
  using assms by (simp add: calls_of_def)

subsection \<open>Unpacking\<close>

lemma next_item_Some:
  assumes "next_item ext it s = (Inr (Some v), s1)"
  shows "trace s1 = trace s @ [(Call ''next'' [it] [], Inr v)]"
  using assms
  by (auto simp: next_item_def perform_def split: prod.splits sum.splits if_splits)

lemma next_item_None:
  assumes "next_item ext it s = (Inr None, s1)"
  shows "trace s1 = trace s @ [(Call ''next'' [it] [], Inl ''StopIteration'')]"
  using assms
  by (auto simp: next_item_def perform_def split: prod.splits sum.splits if_splits)

lemma take_items_trace:
  "take_items ext it n s = (Inr vs, s1) \<Longrightarrow>
     trace s1 = trace s @ map (\<lambda>u. (Call ''next'' [it] [], Inr u)) vs \<and> length vs = n"
proof (induction n arbitrary: s vs)
  case 0
  then show ?case by (simp add: py_return_def)
next
  case (Suc n)
  from Suc.prems obtain r sa where a: "next_item ext it s = (Inr r, sa)"
    and b: "(case r of None \<Rightarrow> py_raise ''ValueError''
             | Some v \<Rightarrow> py_bind (take_items ext it n) (\<lambda>vs. py_return (v # vs))) sa = (Inr vs, s1)"
    by (auto elim!: py_bindE)
  from b obtain v where r: "r = Some v" by (cases r) (auto simp: py_raise_def)
  with b obtain ws where c: "take_items ext it n sa = (Inr ws, s1)" and vs: "vs = v # ws"
    by (auto elim!: py_bindE py_returnE)
  from Suc.IH[OF c] next_item_Some[OF a[unfolded r]] vs show ?case by simp
qed

lemma unpack_trace:
  assumes "unpack ext n v s = (Inr vs, s1)"
  shows "\<exists>seg. trace s1 = trace s @ seg \<and> unpacks v seg vs \<and> iter_only seg \<and> length vs = n"
proof (cases "items_of v")
  case (Some ws)
  with assms have "ws = vs" "s1 = s" "length vs = n"
    by (auto simp: unpack_def py_return_def py_raise_def split: if_splits)
  with Some show ?thesis by (simp add: unpacks_def iter_only_def)
next
  case None
  with assms obtain x where v: "v = PyObj x"
    by (cases v) (auto simp: unpack_def py_raise_def)
  from assms None v obtain it sa sb r where
    a: "perform ext (Call ''iter'' [v] []) s = (Inr it, sa)" and
    b: "take_items ext it n sa = (Inr vs, sb)" and
    c: "next_item ext it sb = (Inr r, s1)" and
    d: "(case r of None \<Rightarrow> py_return vs | Some _ \<Rightarrow> py_raise ''ValueError'') s1 = (Inr vs, s1)"
    by (auto simp: unpack_def elim!: py_bindE split: option.splits
        simp: py_return_def py_raise_def)
  from d have r: "r = None" by (cases r) (auto simp: py_raise_def)
  from a have ta: "trace sa = trace s @ [(Call ''iter'' [v] [], Inr it)]" by (rule performE)
  from take_items_trace[OF b] have tb:
    "trace sb = trace sa @ map (\<lambda>u. (Call ''next'' [it] [], Inr u)) vs" and n: "length vs = n"
    by simp_all
  from next_item_None[OF c[unfolded r]] have tc:
    "trace s1 = trace sb @ [(Call ''next'' [it] [], Inl ''StopIteration'')]" .
  let ?seg = "(Call ''iter'' [v] [], Inr it) # map (\<lambda>u. (Call ''next'' [it] [], Inr u)) vs
              @ [(Call ''next'' [it] [], Inl ''StopIteration'')]"
  have "trace s1 = trace s @ ?seg" using ta tb tc by simp
  moreover have "unpacks v ?seg vs" using None by (simp add: unpacks_def)
  moreover have "iter_only ?seg" by (simp add: iter_only_def list_all_iff)
  ultimately show ?thesis using n by blast
qed

lemma unpack2E:
  assumes "unpack2 ext v s = (Inr p, s1)"
  obtains a b gseg where "trace s1 = trace s @ gseg" and "unpacks v gseg [a, b]"
    and "iter_only gseg" and "p = (a, b)"
proof -
  from assms obtain vs sa where u: "unpack ext 2 v s = (Inr vs, sa)"
    and k: "(case vs of [a, b] \<Rightarrow> py_return (a, b) | _ \<Rightarrow> py_raise ''ValueError'') sa = (Inr p, s1)"
    unfolding unpack2_def by (erule py_bindE)
  from unpack_trace[OF u] obtain seg where
    s: "trace sa = trace s @ seg" "unpacks v seg vs" "iter_only seg" "length vs = 2" by blast
  from s(4) obtain a b where vs: "vs = [a, b]"
    by (cases vs; cases "tl vs"; cases "tl (tl vs)") auto
  with k have "p = (a, b)" "s1 = sa" by (auto simp: py_return_def)
  with s vs show thesis by (auto intro: that)
qed

lemma unpack4E:
  assumes "unpack4 ext v s = (Inr p, s1)"
  obtains a b c d pseg where "trace s1 = trace s @ pseg" and "unpacks v pseg [a, b, c, d]"
    and "iter_only pseg" and "p = (a, b, c, d)"
proof -
  from assms obtain vs sa where u: "unpack ext 4 v s = (Inr vs, sa)"
    and k: "(case vs of [a, b, c, d] \<Rightarrow> py_return (a, b, c, d) | _ \<Rightarrow> py_raise ''ValueError'') sa
              = (Inr p, s1)"
    unfolding unpack4_def by (erule py_bindE)
  from unpack_trace[OF u] obtain seg where
    s: "trace sa = trace s @ seg" "unpacks v seg vs" "iter_only seg" "length vs = 4" by blast
  from s(4) obtain a b c d where vs: "vs = [a, b, c, d]"
    by (cases vs; cases "tl vs"; cases "tl (tl vs)"; cases "tl (tl (tl vs))";
        cases "tl (tl (tl (tl vs)))") auto
  with k have "p = (a, b, c, d)" "s1 = sa" by (auto simp: py_return_def)
  with s vs show thesis by (auto intro: that)
qed

text \<open>Unpacking at work: a string of two characters, a list of four items, an object
  iterated through \<^verbatim>\<open>iter\<close> and \<^verbatim>\<open>next\<close>, the same object with too few items for four
  targets, and a value that is no iterable.\<close>

lemma unpack2_str: "unpack2 ext (PyStr ''ab'') s = (Inr (PyStr ''a'', PyStr ''b''), s)"
  by (simp add: unpack2_def unpack_def py_bind_def py_return_def)

lemma unpack4_list: "unpack4 ext (PyList [a, b, c, d]) s = (Inr (a, b, c, d), s)"
  by (simp add: unpack4_def unpack_def py_bind_def py_return_def)

lemma unpack2_object:
  "unpack2 pair_ext (PyObj ''pair'') \<lparr>world = 0, trace = []\<rparr> =
     (Inr (PyInt 0, PyInt 1),
      \<lparr>world = 2, trace =
        [(Call ''iter'' [PyObj ''pair''] [], Inr (PyObj ''iterator'')),
         (Call ''next'' [PyObj ''iterator''] [], Inr (PyInt 0)),
         (Call ''next'' [PyObj ''iterator''] [], Inr (PyInt 1)),
         (Call ''next'' [PyObj ''iterator''] [], Inl ''StopIteration'')]\<rparr>)"
  by (simp add: unpack2_def unpack_def next_item_def perform_def pair_ext_def py_bind_def
      py_return_def py_raise_def numeral_2_eq_2)

lemma unpack4_too_few:
  "fst (unpack4 pair_ext (PyObj ''pair'') \<lparr>world = 0, trace = []\<rparr>) = Inl ''ValueError''"
  by (simp add: unpack4_def unpack_def next_item_def perform_def pair_ext_def py_bind_def
      py_return_def py_raise_def numeral_eq_Suc)

lemma unpack2_none: "unpack2 ext PyNone s = (Inl ''TypeError'', s)"
  by (simp add: unpack2_def unpack_def py_bind_def py_raise_def)

subsection \<open>Rendering\<close>

lemma fmt_only_simps [simp]:
  "fmt_only []"
  "fmt_only (e # tr) = (is_fmt (fst e) \<and> fmt_only tr)"
  "fmt_only (tr @ tr') = (fmt_only tr \<and> fmt_only tr')"
  by (simp_all add: fmt_only_def)

lemma py_repr_trace:
  "py_repr ext v s = (Inr t, s1) \<Longrightarrow> \<exists>fmt. trace s1 = trace s @ fmt \<and> fmt_only fmt"
  "py_reprs ext vs s = (Inr ts, s1) \<Longrightarrow> \<exists>fmt. trace s1 = trace s @ fmt \<and> fmt_only fmt"
proof (induction ext v and ext vs arbitrary: s t s1 and s ts s1 rule: py_repr_py_reprs.induct)
  case (4 ext vs)
  then show ?case
    by (auto elim!: py_bindE py_returnE)
next
  case (5 ext vs)
  then show ?case
    by (auto elim!: py_bindE py_returnE)
next
  case (10 ext v vs)
  from "10.prems" obtain r sa rs where a: "py_repr ext v s = (Inr r, sa)"
    and b: "py_reprs ext vs sa = (Inr rs, s1)"
    by (auto elim!: py_bindE py_returnE)
  from "10.IH"(1)[OF a] obtain f1 where f1: "trace sa = trace s @ f1" "fmt_only f1" by blast
  from "10.IH"(2)[OF b] obtain f2 where f2: "trace s1 = trace sa @ f2" "fmt_only f2" by blast
  show ?case using f1 f2 by (intro exI[of _ "f1 @ f2"]) simp
qed (auto elim!: py_bindE py_returnE performE expect_strE)

lemma py_str_trace:
  assumes "py_str ext v s = (Inr t, s1)"
  shows "\<exists>fmt. trace s1 = trace s @ fmt \<and> fmt_only fmt"
proof (cases "\<exists>u. v = PyStr u")
  case True
  then show ?thesis using assms by (auto simp: py_str_def elim!: py_returnE)
next
  case False
  then have "py_str ext v = py_repr ext v"
    by (cases v) (simp_all add: py_str_def del: py_repr.simps)
  with assms show ?thesis by (auto dest: py_repr_trace(1) simp del: py_repr.simps)
qed

lemma py_strE:
  assumes "py_str ext v s = (Inr t, s1)"
  obtains fmt where "trace s1 = trace s @ fmt" and "fmt_only fmt"
  using py_str_trace[OF assms] by blast

lemma shape_line_trace:
  assumes "shape_line ext X y s = (Inr line, s1)"
  shows "\<exists>fmt. trace s1 = trace s @ fmt \<and> fmt_only fmt"
  using assms unfolding shape_line_def
  apply -
  apply ((erule py_bindE performE py_returnE py_strE | hypsubst)+)
  apply (simp)
  done

lemma shape_lineE:
  assumes "shape_line ext X y s = (Inr line, s1)"
  obtains fmt where "trace s1 = trace s @ fmt" and "fmt_only fmt"
  using shape_line_trace[OF assms] by blast

subsection \<open>The calls of each cell\<close>

text \<open>Whatever the libraries answer, a cell that ran to the end made exactly these calls, in
  this order. The stretches \<open>gseg\<close> and \<open>pseg\<close> are the unpacking of the generator's and the
  splitter's result, \<open>fmt\<close> the rendering of the f-string.\<close>

lemma reg_cell1_trace:
  assumes "reg_cell1 ext s = (Inr u, s')"
  shows "\<exists>i1 i2 i3. trace s' = trace s @
     [(Import ''cuml'' [], Inr i1),
      (Import ''cupy'' [''asnumpy''], Inr i2),
      (Import ''joblib'' [''dump'', ''load''], Inr i3)]"
  using assms unfolding reg_cell1_def
  apply -
  apply ((erule py_bindE performE py_returnE | hypsubst)+)
  apply simp
  done

lemma reg_cell2_trace:
  assumes "reg_cell2 ext s = (Inr u, s')"
  shows "\<exists>i1 i2 i3 i4. trace s' = trace s @
     [(Import ''cuml.datasets'' [''make_regression''], Inr i1),
      (Import ''cuml.model_selection'' [''train_test_split''], Inr i2),
      (Import ''cuml.linear_model'' [''LinearRegression''], Inr i3),
      (Import ''sklearn.metrics'' [''r2_score''], Inr i4)]"
  using assms unfolding reg_cell2_def
  apply -
  apply ((erule py_bindE performE py_returnE | hypsubst)+)
  apply simp
  done

lemma clf_cell1_trace:
  assumes "clf_cell1 ext s = (Inr u, s')"
  shows "\<exists>i1 i2 i3. trace s' = trace s @
     [(Import ''cuml'' [], Inr i1),
      (Import ''cupy'' [''asnumpy''], Inr i2),
      (Import ''joblib'' [''dump'', ''load''], Inr i3)]"
  using assms unfolding clf_cell1_def
  apply -
  apply ((erule py_bindE performE py_returnE | hypsubst)+)
  apply simp
  done

lemma reg_gpu_cell_trace:
  assumes "reg_gpu_cell ext s = (Inr shown, s')"
  shows "\<exists>gsegA fmtA psegA.
    \<exists>i1 g X y line p0 parts Xtr Xte ytr yte m t0 fitted t1 dt preds cu_r2 yn pn sk_r2 p1 p2 p3.
    trace s' = trace s @
     [(Import ''time'' [], Inr i1),
      (reg_generate reg_gpu_params, Inr g)] @ gsegA @ fmtA @
     [(Call ''print'' [PyStr line] [], Inr p0),
      (Call ''cuml.model_selection.train_test_split'' [X, y]
         [(''train_size'', PyFloat (8 / 10)), (''random_state'', PyInt 10)],
       Inr parts)] @ psegA @
     [(Call ''cuml.linear_model.LinearRegression'' []
         [(''fit_intercept'', PyBool True), (''normalize'', PyBool True),
          (''algorithm'', PyStr ''eig'')], Inr m),
      (Call ''time.time'' [] [], Inr t0),
      (Method m ''fit'' [Xtr, ytr], Inr fitted),
      (Call ''time.time'' [] [], Inr t1),
      (Method t1 ''__sub__'' [t0], Inr dt),
      (Method fitted ''predict'' [Xte], Inr preds),
      (Call ''cuml.metrics.r2_score'' [yte, preds] [], Inr cu_r2),
      (Call ''cupy.asnumpy'' [yte] [], Inr yn),
      (Call ''cupy.asnumpy'' [preds] [], Inr pn),
      (Call ''sklearn.metrics.r2_score'' [yn, pn] [], Inr sk_r2),
      (Call ''print'' [PyStr ''cuml's r2 score : '', cu_r2] [], Inr p1),
      (Call ''print'' [PyStr ''sklearn's r2 score : '', sk_r2] [], Inr p2),
      (Call ''print'' [PyStr ''cuML's training time:'', dt, PyStr ''seconds''] [], Inr p3),
      (Call ''joblib.dump'' [fitted, PyStr ''LR.model''] [], Inr shown)]
    \<and> unpacks g gsegA [X, y] \<and> iter_only gsegA \<and> fmt_only fmtA
    \<and> unpacks parts psegA [Xtr, Xte, ytr, yte] \<and> iter_only psegA"
  using assms unfolding reg_gpu_cell_def
  apply -
  apply ((erule py_bindE performE unpack2E unpack4E py_returnE shape_lineE | hypsubst
          | simp only: prod.case)+)
  apply (rule_tac x = gseg in exI, rule_tac x = fmt in exI, rule_tac x = pseg in exI)
  apply simp
  done

lemma reg_cpu_cell_trace:
  assumes "reg_cpu_cell ext s = (Inr u, s')"
  shows "\<exists>gsegR psegR.
    \<exists>i1 i2 i3 i4 i5 g X y Xn yn parts Xtr Xte ytr yte t0 m fitted t1 dt preds r2 p1 p2.
    trace s' = trace s @
     [(Import ''sklearn.model_selection'' [''train_test_split''], Inr i1),
      (Import ''sklearn.linear_model'' [''LinearRegression''], Inr i2),
      (Import ''sklearn.metrics'' [''r2_score''], Inr i3),
      (Import ''numpy'' [], Inr i4),
      (Import ''time'' [], Inr i5),
      (reg_generate reg_cpu_params, Inr g)] @ gsegR @
     [(Call ''cupy.asnumpy'' [X] [], Inr Xn),
      (Call ''cupy.asnumpy'' [y] [], Inr yn),
      (Call ''sklearn.model_selection.train_test_split'' [Xn, yn]
         [(''train_size'', PyFloat (8 / 10)), (''random_state'', PyInt 10)],
       Inr parts)] @ psegR @
     [(Call ''time.time'' [] [], Inr t0),
      (Call ''sklearn.linear_model.LinearRegression'' [] [], Inr m),
      (Method m ''fit'' [Xtr, ytr], Inr fitted),
      (Call ''time.time'' [] [], Inr t1),
      (Method t1 ''__sub__'' [t0], Inr dt),
      (Method m ''predict'' [Xte], Inr preds),
      (Call ''sklearn.metrics.r2_score'' [yte, preds] [], Inr r2),
      (Call ''print'' [PyStr ''scikit-learn's r2 score:'', r2] [], Inr p1),
      (Call ''print'' [PyStr ''scikit-learn's training time:'', dt, PyStr ''seconds''] [], Inr p2)]
    \<and> unpacks g gsegR [X, y] \<and> iter_only gsegR
    \<and> unpacks parts psegR [Xtr, Xte, ytr, yte] \<and> iter_only psegR"
  using assms unfolding reg_cpu_cell_def
  apply -
  apply ((erule py_bindE performE unpack2E unpack4E py_returnE shape_lineE | hypsubst
          | simp only: prod.case)+)
  apply (rule_tac x = gseg in exI, rule_tac x = pseg in exI)
  apply simp
  done

lemma clf_gpu_cell_trace:
  assumes "clf_gpu_cell ext s = (Inr (X, y), s')"
  shows "\<exists>gsegA psegA.
    \<exists>i1 i2 i3 i4 i5 g parts Xtr Xte ytr yte m t0 fitted t1 dt preds cu yn pn sk p1 p2 p3 d loaded.
    trace s' = trace s @
     [(Import ''cuml.datasets.classification'' [''make_classification''], Inr i1),
      (Import ''cuml.model_selection'' [''train_test_split''], Inr i2),
      (Import ''cuml.ensemble'' [''RandomForestClassifier''], Inr i3),
      (Import ''sklearn.metrics'' [''accuracy_score''], Inr i4),
      (Import ''time'' [], Inr i5),
      (clf_generate clf_gpu_params, Inr g)] @ gsegA @
     [(Call ''cuml.model_selection.train_test_split'' [X, y] [(''random_state'', PyInt 0)],
       Inr parts)] @ psegA @
     [(Call ''cuml.ensemble.RandomForestClassifier'' []
         [(''max_depth'', PyInt (max_depth clf_gpu_params)),
          (''n_estimators'', PyInt (n_estimators clf_gpu_params)),
          (''random_state'', PyInt 0)], Inr m),
      (Call ''time.time'' [] [], Inr t0),
      (Method m ''fit'' [Xtr, ytr], Inr fitted),
      (Call ''time.time'' [] [], Inr t1),
      (Method t1 ''__sub__'' [t0], Inr dt),
      (Method m ''predict'' [Xte], Inr preds),
      (Call ''cuml.metrics.accuracy_score'' [yte, preds] [], Inr cu),
      (Call ''cupy.asnumpy'' [yte] [], Inr yn),
      (Call ''cupy.asnumpy'' [preds] [], Inr pn),
      (Call ''sklearn.metrics.accuracy_score'' [yn, pn] [], Inr sk),
      (Call ''print'' [PyStr '' cuml accuracy: '', cu] [], Inr p1),
      (Call ''print'' [PyStr '' sklearn accuracy : '', sk] [], Inr p2),
      (Call ''print'' [PyStr ''cuML Random Forest classification training time'', dt,
         PyStr ''seconds''] [], Inr p3),
      (Call ''joblib.dump'' [fitted, PyStr ''RF.model''] [], Inr d),
      (Call ''joblib.load'' [PyStr ''RF.model''] [], Inr loaded)]
    \<and> unpacks g gsegA [X, y] \<and> iter_only gsegA
    \<and> unpacks parts psegA [Xtr, Xte, ytr, yte] \<and> iter_only psegA"
  using assms unfolding clf_gpu_cell_def
  apply -
  apply ((erule py_bindE performE unpack2E unpack4E py_returnE shape_lineE | hypsubst
          | simp only: prod.case)+)
  apply (rule_tac x = gseg in exI, rule_tac x = pseg in exI)
  apply simp
  done

lemma clf_cpu_cell_trace:
  assumes "clf_cpu_cell ext X y s = (Inr u, s')"
  shows "\<exists>psegR.
    \<exists>i1 i2 i3 i4 i5 Xn yn parts Xtr Xte ytr yte m t0 fitted t1 dt preds sk p1 p2.
    trace s' = trace s @
     [(Import ''cuml.datasets.classification'' [''make_classification''], Inr i1),
      (Import ''sklearn.model_selection'' [''train_test_split''], Inr i2),
      (Import ''sklearn.ensemble'' [''RandomForestClassifier''], Inr i3),
      (Import ''sklearn.metrics'' [''accuracy_score''], Inr i4),
      (Import ''time'' [], Inr i5),
      (Call ''cupy.asnumpy'' [X] [], Inr Xn),
      (Call ''cupy.asnumpy'' [y] [], Inr yn),
      (Call ''sklearn.model_selection.train_test_split'' [Xn, yn] [(''random_state'', PyInt 0)],
       Inr parts)] @ psegR @
     [(Call ''sklearn.ensemble.RandomForestClassifier'' []
         [(''n_estimators'', PyInt (n_estimators clf_cpu_params)),
          (''max_depth'', PyInt (max_depth clf_cpu_params)),
          (''random_state'', PyInt 0)], Inr m),
      (Call ''time.time'' [] [], Inr t0),
      (Method m ''fit'' [Xtr, ytr], Inr fitted),
      (Call ''time.time'' [] [], Inr t1),
      (Method t1 ''__sub__'' [t0], Inr dt),
      (Method m ''predict'' [Xte], Inr preds),
      (Call ''sklearn.metrics.accuracy_score'' [yte, preds] [], Inr sk),
      (Call ''print'' [PyStr ''scikit-learn's accuracy:'', sk] [], Inr p1),
      (Call ''print'' [PyStr ''scikit-learn's training time:'', dt, PyStr ''seconds''] [], Inr p2)]
    \<and> unpacks parts psegR [Xtr, Xte, ytr, yte] \<and> iter_only psegR"
  using assms unfolding clf_cpu_cell_def
  apply -
  apply ((erule py_bindE performE unpack2E unpack4E py_returnE shape_lineE | hypsubst
          | simp only: prod.case)+)
  apply (rule_tac x = pseg in exI)
  apply simp
  done

text \<open>A notebook that ran to the end ran each of its cells to the end, in order.\<close>

lemma regression_notebook_cells:
  assumes "regression_notebook ext s = (Inr u, s')"
  obtains s1 s2 shown s3 where
    "reg_cell1 ext s = (Inr (), s1)" and "reg_cell2 ext s1 = (Inr (), s2)" and
    "reg_gpu_cell ext s2 = (Inr shown, s3)" and "reg_cpu_cell ext s3 = (Inr u, s')"
  using assms unfolding regression_notebook_def
  by (elim py_bindE) simp

lemma classification_notebook_cells:
  assumes "classification_notebook ext s = (Inr u, s')"
  obtains s1 X y s2 where
    "clf_cell1 ext s = (Inr (), s1)" and "clf_gpu_cell ext s1 = (Inr (X, y), s2)" and
    "clf_cpu_cell ext X y s2 = (Inr u, s')"
  using assms unfolding classification_notebook_def
  by (elim py_bindE) (auto split: prod.splits)

subsection \<open>Filtering a trace\<close>

text \<open>The calls of an f-string and of an unpacking read no clock, print nothing and score
  nothing; the calls of an f-string are not part of the pipeline, those of an unpacking
  are.\<close>

lemma iter_only_simps [simp]:
  "iter_only []"
  "iter_only (e # tr) = (is_iter (fst e) \<and> iter_only tr)"
  "iter_only (tr @ tr') = (iter_only tr \<and> iter_only tr')"
  by (simp_all add: iter_only_def)

lemma fmt_not_clock: "is_fmt c \<Longrightarrow> \<not> is_clock c"
  by (cases c) (auto simp: is_clock_def)

lemma iter_not_clock: "is_iter c \<Longrightarrow> \<not> is_clock c"
  by (cases c) (auto simp: is_clock_def)

lemma brackets_from_fmt:
  "fmt_only fmt \<Longrightarrow> brackets_from None (map fst fmt @ cs) = brackets_from None cs"
  by (induction fmt) (auto simp: fmt_not_clock)

lemma brackets_from_iter:
  "iter_only seg \<Longrightarrow> brackets_from None (map fst seg @ cs) = brackets_from None cs"
  by (induction seg) (auto simp: iter_not_clock)

lemma pipeline_simps [simp]:
  "pipeline [] = []"
  "pipeline (tr @ tr') = pipeline tr @ pipeline tr'"
  by (simp_all add: pipeline_def)





lemma calls_to_simps [simp]:
  "calls_to ns [] = []"
  "calls_to ns (tr @ tr') = calls_to ns tr @ calls_to ns tr'"
  "calls_to ns (e # tr) = (if named ns (fst e) then fst e # calls_to ns tr else calls_to ns tr)"
  by (simp_all add: calls_to_def)

lemma calls_to_fmt: "fmt_only fmt \<Longrightarrow> ''repr'' \<notin> set ns \<Longrightarrow> calls_to ns fmt = []"
proof (induction fmt)
  case Nil
  then show ?case by simp
next
  case (Cons e fmt)
  then show ?case by (cases "fst e") auto
qed

lemma calls_to_iter:
  "iter_only seg \<Longrightarrow> ''iter'' \<notin> set ns \<Longrightarrow> ''next'' \<notin> set ns \<Longrightarrow> calls_to ns seg = []"
proof (induction seg)
  case Nil
  then show ?case by simp
next
  case (Cons e seg)
  then show ?case by (cases "fst e") auto
qed

lemma answers_to_simps [simp]:
  "answers_to ns [] = []"
  "answers_to ns (tr @ tr') = answers_to ns tr @ answers_to ns tr'"
  "answers_to ns (e # tr) =
     (if named ns (fst e) then snd e # answers_to ns tr else answers_to ns tr)"
  by (simp_all add: answers_to_def)



lemma printed_scores_simps [simp]:
  "printed_scores [] = []"
  "printed_scores (tr @ tr') = printed_scores tr @ printed_scores tr'"
  "printed_scores (e # tr) =
     (case labelled_print (fst e) of None \<Rightarrow> printed_scores tr
      | Some v \<Rightarrow> v # printed_scores tr)"
  by (simp_all add: printed_scores_def List.map_filter_def split: option.splits)



lemma data_flow_simps [simp]:
  "data_flow [] = []"
  "data_flow (tr @ tr') = data_flow tr @ data_flow tr'"
  "data_flow (e # tr) =
     (if named (generators @ splitters @ [''cupy.asnumpy'', ''iter'', ''next'']) (fst e)
      then e # data_flow tr else data_flow tr)"
  by (simp_all add: data_flow_def)

lemma data_flow_fmt: "fmt_only fmt \<Longrightarrow> data_flow fmt = []"
proof (induction fmt)
  case Nil
  then show ?case by simp
next
  case (Cons e fmt)
  then show ?case by (cases "fst e") (auto simp: generators_def splitters_def)
qed

lemma data_flow_iter: "iter_only seg \<Longrightarrow> data_flow seg = seg"
proof (induction seg)
  case Nil
  then show ?case by simp
next
  case (Cons e seg)
  then show ?case by (cases "fst e") auto
qed

lemmas call_lists = generators_def splitters_def estimators_def scorers_def
  reg_generate_def clf_generate_def reg_gpu_params_def reg_cpu_params_def
  clf_gpu_params_def clf_cpu_params_def

section \<open>What the timing brackets hold\<close>

text \<open>
  In the accelerated regression cell and in both classification cells the estimator is
  built before the first reading of the clock, and the two readings enclose the call of
  \<^verbatim>\<open>fit\<close> alone.
\<close>

lemma reg_gpu_bracket:
  assumes "completes (reg_gpu_cell ext s)"
  shows "list_all one_fit_only (brackets (calls_of (reg_gpu_cell ext) s))"
proof -
  from assms obtain u s' where r: "reg_gpu_cell ext s = (Inr u, s')"
    by (rule completesE)
  from reg_gpu_cell_trace[OF r] show ?thesis
    by (elim exE conjE)
       (simp add: calls_of_run[of "reg_gpu_cell ext", OF r] brackets_def is_clock_def
          reg_generate_def brackets_from_fmt brackets_from_iter one_fit_only_def)
qed

lemma clf_gpu_bracket:
  assumes "completes (clf_gpu_cell ext s)"
  shows "list_all one_fit_only (brackets (calls_of (clf_gpu_cell ext) s))"
proof -
  from assms obtain u s' where "clf_gpu_cell ext s = (Inr u, s')"
    by (rule completesE)
  then obtain X y where r: "clf_gpu_cell ext s = (Inr (X, y), s')"
    by (cases u) simp
  from clf_gpu_cell_trace[OF r] show ?thesis
    by (elim exE conjE)
       (simp add: calls_of_run[of "clf_gpu_cell ext", OF r] brackets_def is_clock_def
          clf_generate_def brackets_from_iter one_fit_only_def)
qed

lemma clf_cpu_bracket:
  assumes "completes (clf_cpu_cell ext X y s)"
  shows "list_all one_fit_only (brackets (calls_of (clf_cpu_cell ext X y) s))"
proof -
  from assms obtain u s' where r: "clf_cpu_cell ext X y s = (Inr u, s')"
    by (rule completesE)
  from clf_cpu_cell_trace[OF r] show ?thesis
    by (elim exE conjE)
       (simp add: calls_of_run[of "clf_cpu_cell ext X y", OF r] brackets_def is_clock_def
          brackets_from_iter one_fit_only_def)
qed

text \<open>The cells run to the end on the stand-ins.\<close>

lemmas stub_run_defs =
  completes_def py_bind_def perform_def py_return_def py_raise_def scoring_ext_def
  fresh_kernel_def reg_generate_def clf_generate_def generators_def splitters_def scorers_def
  unpack2_def unpack4_def unpack_def

lemma scoring_completes_reg_cpu_cell: "completes (reg_cpu_cell (scoring_ext q) fresh_kernel)"
  by (simp add: reg_cpu_cell_def stub_run_defs)

lemma stub_completes_reg_cpu_cell: "completes (reg_cpu_cell stub_ext fresh_kernel)"
  unfolding stub_ext_def by (rule scoring_completes_reg_cpu_cell)

text \<open>
  C7. Each elapsed time is to bracket exactly one call of \<^verbatim>\<open>fit\<close> and nothing else. The
  reference cell of the regression notebook reads the clock, then builds the estimator
  (\<^verbatim>\<open>sk_reg_model = LinearRegression()\<close>), then calls \<^verbatim>\<open>fit\<close>, then reads the clock again:
  whatever the libraries answer, a run of that cell that completes has one timing bracket,
  and it holds two calls, the constructor and \<^verbatim>\<open>fit\<close>. So the bracket is not one \<^verbatim>\<open>fit\<close>
  alone.
\<close>

theorem reg_cpu_bracket_holds_constructor:
  assumes "completes (reg_cpu_cell ext s)"
  shows "(\<exists>m Xtr ytr. brackets (calls_of (reg_cpu_cell ext) s) =
            [[Call ''sklearn.linear_model.LinearRegression'' [] [], Method m ''fit'' [Xtr, ytr]]])
         \<and> \<not> list_all one_fit_only (brackets (calls_of (reg_cpu_cell ext) s))"
proof -
  from assms obtain u s' where r: "reg_cpu_cell ext s = (Inr u, s')"
    by (rule completesE)
  from reg_cpu_cell_trace[OF r] show ?thesis
    by (elim exE conjE)
       (simp add: calls_of_run[of "reg_cpu_cell ext", OF r] brackets_def is_clock_def
          reg_generate_def brackets_from_iter one_fit_only_def)
qed

text \<open>The theorem at the stand-in, where the cell completes.\<close>

theorem reg_cpu_bracket_holds_constructor_witness:
  "completes (reg_cpu_cell stub_ext fresh_kernel)
   \<and> (\<exists>m Xtr ytr. brackets (calls_of (reg_cpu_cell stub_ext) fresh_kernel) =
            [[Call ''sklearn.linear_model.LinearRegression'' [] [], Method m ''fit'' [Xtr, ytr]]])
   \<and> \<not> list_all one_fit_only (brackets (calls_of (reg_cpu_cell stub_ext) fresh_kernel))"
  using stub_completes_reg_cpu_cell
    reg_cpu_bracket_holds_constructor[OF stub_completes_reg_cpu_cell]
  by (rule conjI)

section \<open>The calls of a whole notebook\<close>



text \<open>Both notebooks run to the end on the stand-ins, and print what the scorers answer.\<close>

lemmas notebook_defs =
  regression_notebook_def reg_cell1_def reg_cell2_def reg_gpu_cell_def reg_cpu_cell_def
  classification_notebook_def clf_cell1_def clf_gpu_cell_def clf_cpu_cell_def
  reg_gpu_params_def reg_cpu_params_def clf_gpu_params_def clf_cpu_params_def
  shape_line_def py_str_def tuple_text_def dec_int_def dec_nat.simps digit_char_def

lemma scoring_completes_regression:
  "completes (regression_notebook (scoring_ext q) fresh_kernel)"
  by (simp add: notebook_defs stub_run_defs)

lemma scoring_completes_classification:
  "completes (classification_notebook (scoring_ext q) fresh_kernel)"
  by (simp add: notebook_defs stub_run_defs)



lemma stub_completes_regression: "completes (regression_notebook stub_ext fresh_kernel)"
  unfolding stub_ext_def by (rule scoring_completes_regression)

lemma stub_completes_classification: "completes (classification_notebook stub_ext fresh_kernel)"
  unfolding stub_ext_def by (rule scoring_completes_classification)



section \<open>The two benchmark scenarios\<close>







section \<open>Parameters and data of the two runs of a notebook\<close>

text \<open>
  C9, as amended. In each notebook the accelerated and the reference cell assign the same
  dimensions (and, for the forest, the same depth and size). In a run of the classification
  notebook that completes, the generator is called once, by the accelerated cell; cuML's
  splitter gets the two items \<^verbatim>\<open>X\<close> and \<^verbatim>\<open>y\<close> of its result, scikit-learn's splitter gets
  the numpy conversions of the same \<^verbatim>\<open>X\<close> and \<^verbatim>\<open>y\<close>, both with seed 0; and the two forests
  are built with the same depth, size and seed. In a run of the regression notebook that
  completes, the generator is called twice, by the same name with the same arguments and
  seed 123; cuML's splitter gets the items of the first result, scikit-learn's the numpy
  conversions of the items of the second, both with train size 0.8 and seed 10; and the two
  estimators are not built alike: cuML's with \<^verbatim>\<open>fit_intercept=True\<close>, \<^verbatim>\<open>normalize=True\<close> and
  \<^verbatim>\<open>algorithm='eig'\<close>, scikit-learn's with no argument at all.
\<close>

theorem parameters_and_data_of_the_two_runs:
  assumes "completes (classification_notebook ext s)"
    and "completes (regression_notebook ext' t)"
  shows "clf_gpu_params = clf_cpu_params \<and> reg_gpu_params = reg_cpu_params
    \<and> (\<exists>gsegA psegA psegR.
        \<exists>g X y parts Xtr Xte ytr yte preds y_np preds_np X_np y_np' parts' Xtr' Xte' ytr' yte'.
      data_flow (calls_of (classification_notebook ext) s) =
       [(Call ''cuml.datasets.classification.make_classification'' []
         [(''n_classes'', PyInt 2), (''n_features'', PyInt 10),
          (''n_samples'', PyInt 100000), (''random_state'', PyInt 0)],
         Inr g)] @ gsegA @
       [(Call ''cuml.model_selection.train_test_split'' [X, y] [(''random_state'', PyInt 0)],
         Inr parts)] @ psegA @
       [(Call ''cupy.asnumpy'' [yte] [], Inr y_np),
        (Call ''cupy.asnumpy'' [preds] [], Inr preds_np),
        (Call ''cupy.asnumpy'' [X] [], Inr X_np),
        (Call ''cupy.asnumpy'' [y] [], Inr y_np'),
        (Call ''sklearn.model_selection.train_test_split'' [X_np, y_np']
           [(''random_state'', PyInt 0)],
         Inr parts')] @ psegR
      \<and> unpacks g gsegA [X, y] \<and> unpacks parts psegA [Xtr, Xte, ytr, yte]
      \<and> unpacks parts' psegR [Xtr', Xte', ytr', yte'])
    \<and> map (\<lambda>c. set (kwargs c)) (calls_to estimators (calls_of (classification_notebook ext) s)) =
        [{(''max_depth'', PyInt 10), (''n_estimators'', PyInt 25), (''random_state'', PyInt 0)},
         {(''max_depth'', PyInt 10), (''n_estimators'', PyInt 25), (''random_state'', PyInt 0)}]
    \<and> (\<exists>gsegA psegA gsegR psegR.
        \<exists>g X y parts Xtr Xte ytr yte preds y_np preds_np g' X' y' X_np y_np' parts'
          Xtr' Xte' ytr' yte'.
      data_flow (calls_of (regression_notebook ext') t) =
       [(Call ''cuml.datasets.make_regression'' []
         [(''n_samples'', PyInt 100000), (''n_features'', PyInt 256),
          (''n_informative'', PyInt 70), (''random_state'', PyInt 123)],
         Inr g)] @ gsegA @
       [(Call ''cuml.model_selection.train_test_split'' [X, y]
           [(''train_size'', PyFloat (8 / 10)), (''random_state'', PyInt 10)],
         Inr parts)] @ psegA @
       [(Call ''cupy.asnumpy'' [yte] [], Inr y_np),
        (Call ''cupy.asnumpy'' [preds] [], Inr preds_np),
        (Call ''cuml.datasets.make_regression'' []
         [(''n_samples'', PyInt 100000), (''n_features'', PyInt 256),
          (''n_informative'', PyInt 70), (''random_state'', PyInt 123)],
         Inr g')] @ gsegR @
       [(Call ''cupy.asnumpy'' [X'] [], Inr X_np),
        (Call ''cupy.asnumpy'' [y'] [], Inr y_np'),
        (Call ''sklearn.model_selection.train_test_split'' [X_np, y_np']
           [(''train_size'', PyFloat (8 / 10)), (''random_state'', PyInt 10)],
         Inr parts')] @ psegR
      \<and> unpacks g gsegA [X, y] \<and> unpacks parts psegA [Xtr, Xte, ytr, yte]
      \<and> unpacks g' gsegR [X', y'] \<and> unpacks parts' psegR [Xtr', Xte', ytr', yte'])
    \<and> calls_to estimators (calls_of (regression_notebook ext') t) =
        [Call ''cuml.linear_model.LinearRegression'' []
           [(''fit_intercept'', PyBool True), (''normalize'', PyBool True),
          (''algorithm'', PyStr ''eig'')],
         Call ''sklearn.linear_model.LinearRegression'' [] []]"
proof -
  from assms(1) obtain u s' where r: "classification_notebook ext s = (Inr u, s')"
    by (rule completesE)
  from r obtain s1 X y s2 where
    c1: "clf_cell1 ext s = (Inr (), s1)" and c2: "clf_gpu_cell ext s1 = (Inr (X, y), s2)" and
    c3: "clf_cpu_cell ext X y s2 = (Inr u, s')"
    by (rule classification_notebook_cells)
  note run = calls_of_run[of "classification_notebook ext", OF r]
  from assms(2) obtain v t' where q: "regression_notebook ext' t = (Inr v, t')"
    by (rule completesE)
  from q obtain t1 t2 shown t3 where
    d1: "reg_cell1 ext' t = (Inr (), t1)" and d2: "reg_cell2 ext' t1 = (Inr (), t2)" and
    d3: "reg_gpu_cell ext' t2 = (Inr shown, t3)" and d4: "reg_cpu_cell ext' t3 = (Inr v, t')"
    by (rule regression_notebook_cells)
  note run' = calls_of_run[of "regression_notebook ext'", OF q]
  have params: "clf_gpu_params = clf_cpu_params \<and> reg_gpu_params = reg_cpu_params"
    by (simp add: clf_gpu_params_def clf_cpu_params_def reg_gpu_params_def reg_cpu_params_def)
  from clf_cell1_trace[OF c1] clf_gpu_cell_trace[OF c2] clf_cpu_cell_trace[OF c3]
  have clf: "(\<exists>gsegA psegA psegR.
          \<exists>g X y parts Xtr Xte ytr yte preds y_np preds_np X_np y_np' parts' Xtr' Xte' ytr' yte'.
        data_flow (calls_of (classification_notebook ext) s) =
         [(Call ''cuml.datasets.classification.make_classification'' []
           [(''n_classes'', PyInt 2), (''n_features'', PyInt 10),
            (''n_samples'', PyInt 100000), (''random_state'', PyInt 0)],
           Inr g)] @ gsegA @
         [(Call ''cuml.model_selection.train_test_split'' [X, y] [(''random_state'', PyInt 0)],
           Inr parts)] @ psegA @
         [(Call ''cupy.asnumpy'' [yte] [], Inr y_np),
          (Call ''cupy.asnumpy'' [preds] [], Inr preds_np),
          (Call ''cupy.asnumpy'' [X] [], Inr X_np),
          (Call ''cupy.asnumpy'' [y] [], Inr y_np'),
          (Call ''sklearn.model_selection.train_test_split'' [X_np, y_np']
             [(''random_state'', PyInt 0)],
           Inr parts')] @ psegR
        \<and> unpacks g gsegA [X, y] \<and> unpacks parts psegA [Xtr, Xte, ytr, yte]
        \<and> unpacks parts' psegR [Xtr', Xte', ytr', yte'])"
    apply -
    apply (elim exE conjE)
    apply (rule_tac x = gsegA in exI, rule_tac x = psegA in exI, rule_tac x = psegR in exI)
    apply (simp add: run data_flow_iter call_lists)
    apply blast
    done
  from clf_cell1_trace[OF c1] clf_gpu_cell_trace[OF c2] clf_cpu_cell_trace[OF c3]
  have forests: "map (\<lambda>c. set (kwargs c)) (calls_to estimators (calls_of (classification_notebook ext) s)) =
        [{(''max_depth'', PyInt 10), (''n_estimators'', PyInt 25), (''random_state'', PyInt 0)},
         {(''max_depth'', PyInt 10), (''n_estimators'', PyInt 25), (''random_state'', PyInt 0)}]"
    by (elim exE conjE) (auto simp add: run calls_to_iter call_lists)
  from reg_cell1_trace[OF d1] reg_cell2_trace[OF d2] reg_gpu_cell_trace[OF d3]
    reg_cpu_cell_trace[OF d4]
  have reg: "(\<exists>gsegA psegA gsegR psegR.
          \<exists>g X y parts Xtr Xte ytr yte preds y_np preds_np g' X' y' X_np y_np' parts'
            Xtr' Xte' ytr' yte'.
        data_flow (calls_of (regression_notebook ext') t) =
         [(Call ''cuml.datasets.make_regression'' []
           [(''n_samples'', PyInt 100000), (''n_features'', PyInt 256),
            (''n_informative'', PyInt 70), (''random_state'', PyInt 123)],
           Inr g)] @ gsegA @
         [(Call ''cuml.model_selection.train_test_split'' [X, y]
             [(''train_size'', PyFloat (8 / 10)), (''random_state'', PyInt 10)],
           Inr parts)] @ psegA @
         [(Call ''cupy.asnumpy'' [yte] [], Inr y_np),
          (Call ''cupy.asnumpy'' [preds] [], Inr preds_np),
          (Call ''cuml.datasets.make_regression'' []
           [(''n_samples'', PyInt 100000), (''n_features'', PyInt 256),
            (''n_informative'', PyInt 70), (''random_state'', PyInt 123)],
           Inr g')] @ gsegR @
         [(Call ''cupy.asnumpy'' [X'] [], Inr X_np),
          (Call ''cupy.asnumpy'' [y'] [], Inr y_np'),
          (Call ''sklearn.model_selection.train_test_split'' [X_np, y_np']
             [(''train_size'', PyFloat (8 / 10)), (''random_state'', PyInt 10)],
           Inr parts')] @ psegR
        \<and> unpacks g gsegA [X, y] \<and> unpacks parts psegA [Xtr, Xte, ytr, yte]
        \<and> unpacks g' gsegR [X', y'] \<and> unpacks parts' psegR [Xtr', Xte', ytr', yte'])"
    apply -
    apply (elim exE conjE)
    apply (rule_tac x = gsegA in exI, rule_tac x = psegA in exI)
    apply (rule_tac x = gsegR in exI, rule_tac x = psegR in exI)
    apply (simp add: run' data_flow_iter data_flow_fmt call_lists)
    apply blast
    done
  from reg_cell1_trace[OF d1] reg_cell2_trace[OF d2] reg_gpu_cell_trace[OF d3]
    reg_cpu_cell_trace[OF d4]
  have regs: "calls_to estimators (calls_of (regression_notebook ext') t) =
        [Call ''cuml.linear_model.LinearRegression'' []
           [(''fit_intercept'', PyBool True), (''normalize'', PyBool True),
          (''algorithm'', PyStr ''eig'')],
         Call ''sklearn.linear_model.LinearRegression'' [] []]"
    by (elim exE conjE) (simp add: run' calls_to_iter calls_to_fmt call_lists)
  from params clf forests reg regs show ?thesis by (intro conjI) simp_all
qed

text \<open>The theorem at the stand-in, where both notebooks complete.\<close>

theorem parameters_and_data_of_the_two_runs_witness:
  "completes (classification_notebook stub_ext fresh_kernel)
    \<and> completes (regression_notebook stub_ext fresh_kernel)
    \<and> clf_gpu_params = clf_cpu_params \<and> reg_gpu_params = reg_cpu_params
    \<and> (\<exists>gsegA psegA psegR.
        \<exists>g X y parts Xtr Xte ytr yte preds y_np preds_np X_np y_np' parts' Xtr' Xte' ytr' yte'.
      data_flow (calls_of (classification_notebook stub_ext) fresh_kernel) =
       [(Call ''cuml.datasets.classification.make_classification'' []
         [(''n_classes'', PyInt 2), (''n_features'', PyInt 10),
          (''n_samples'', PyInt 100000), (''random_state'', PyInt 0)],
         Inr g)] @ gsegA @
       [(Call ''cuml.model_selection.train_test_split'' [X, y] [(''random_state'', PyInt 0)],
         Inr parts)] @ psegA @
       [(Call ''cupy.asnumpy'' [yte] [], Inr y_np),
        (Call ''cupy.asnumpy'' [preds] [], Inr preds_np),
        (Call ''cupy.asnumpy'' [X] [], Inr X_np),
        (Call ''cupy.asnumpy'' [y] [], Inr y_np'),
        (Call ''sklearn.model_selection.train_test_split'' [X_np, y_np']
           [(''random_state'', PyInt 0)],
         Inr parts')] @ psegR
      \<and> unpacks g gsegA [X, y] \<and> unpacks parts psegA [Xtr, Xte, ytr, yte]
      \<and> unpacks parts' psegR [Xtr', Xte', ytr', yte'])
    \<and> map (\<lambda>c. set (kwargs c)) (calls_to estimators (calls_of (classification_notebook stub_ext) fresh_kernel)) =
        [{(''max_depth'', PyInt 10), (''n_estimators'', PyInt 25), (''random_state'', PyInt 0)},
         {(''max_depth'', PyInt 10), (''n_estimators'', PyInt 25), (''random_state'', PyInt 0)}]
    \<and> (\<exists>gsegA psegA gsegR psegR.
        \<exists>g X y parts Xtr Xte ytr yte preds y_np preds_np g' X' y' X_np y_np' parts'
          Xtr' Xte' ytr' yte'.
      data_flow (calls_of (regression_notebook stub_ext) fresh_kernel) =
       [(Call ''cuml.datasets.make_regression'' []
         [(''n_samples'', PyInt 100000), (''n_features'', PyInt 256),
          (''n_informative'', PyInt 70), (''random_state'', PyInt 123)],
         Inr g)] @ gsegA @
       [(Call ''cuml.model_selection.train_test_split'' [X, y]
           [(''train_size'', PyFloat (8 / 10)), (''random_state'', PyInt 10)],
         Inr parts)] @ psegA @
       [(Call ''cupy.asnumpy'' [yte] [], Inr y_np),
        (Call ''cupy.asnumpy'' [preds] [], Inr preds_np),
        (Call ''cuml.datasets.make_regression'' []
         [(''n_samples'', PyInt 100000), (''n_features'', PyInt 256),
          (''n_informative'', PyInt 70), (''random_state'', PyInt 123)],
         Inr g')] @ gsegR @
       [(Call ''cupy.asnumpy'' [X'] [], Inr X_np),
        (Call ''cupy.asnumpy'' [y'] [], Inr y_np'),
        (Call ''sklearn.model_selection.train_test_split'' [X_np, y_np']
           [(''train_size'', PyFloat (8 / 10)), (''random_state'', PyInt 10)],
         Inr parts')] @ psegR
      \<and> unpacks g gsegA [X, y] \<and> unpacks parts psegA [Xtr, Xte, ytr, yte]
      \<and> unpacks g' gsegR [X', y'] \<and> unpacks parts' psegR [Xtr', Xte', ytr', yte'])
    \<and> calls_to estimators (calls_of (regression_notebook stub_ext) fresh_kernel) =
        [Call ''cuml.linear_model.LinearRegression'' []
           [(''fit_intercept'', PyBool True), (''normalize'', PyBool True),
          (''algorithm'', PyStr ''eig'')],
         Call ''sklearn.linear_model.LinearRegression'' [] []]"
  using stub_completes_classification stub_completes_regression
    parameters_and_data_of_the_two_runs[OF stub_completes_classification
      stub_completes_regression]
  by (rule conjI[OF _ conjI])

text \<open>
  C9 as stated concludes that a difference of scores is due to the backend alone. On the
  stand-in the regression notebook completes, and its two estimators are built with
  different keyword arguments: three for cuML's, none for scikit-learn's. The two calls of
  the generator answer two different objects: the data of the reference run is the result of
  a call of its own, which the notebook never compares with the first.
\<close>

theorem parameters_and_data_of_the_two_runs_counterexample:
  "completes (regression_notebook stub_ext fresh_kernel)
   \<and> map kwargs (calls_to estimators (calls_of (regression_notebook stub_ext) fresh_kernel)) =
       [[(''fit_intercept'', PyBool True), (''normalize'', PyBool True),
          (''algorithm'', PyStr ''eig'')],
        []]
   \<and> answers_to generators (calls_of (regression_notebook stub_ext) fresh_kernel) =
       [Inr (PyTuple [PyObj (''X'', 8), PyObj (''y'', 8)]),
        Inr (PyTuple [PyObj (''X'', 36), PyObj (''y'', 36)])]
   \<and> distinct (answers_to generators (calls_of (regression_notebook stub_ext) fresh_kernel))"
  using stub_completes_regression
  by (simp add: stub_ext_def calls_of_def notebook_defs stub_run_defs estimators_def)

end
